theory Spec2Isabelle
  imports Complex_Main "HOL-Library.Word"
begin

section \<open>Search trajectory and search state of the navigation stack\<close>

text \<open>
  The development embeds \<^verbatim>\<open>src/navigation/search.py\<close>: the dataclass
  \<^verbatim>\<open>SearchTrajectory\<close> with its three methods and the method
  \<^verbatim>\<open>SearchState.evaluate\<close>.

  Numbers. The arrays \<^verbatim>\<open>dirs\<close>, \<^verbatim>\<open>deltas\<close> and \<^verbatim>\<open>dist_coefs\<close> are numpy arrays
  of numpy's default integer dtype, int64 on Linux, where this ROS package runs: their
  products wrap around silently, so their elements are 64-bit words read as two's
  complement. The argument \<^verbatim>\<open>distance\<close> enters these products as
  an int64 scalar (for a Python int outside the int64 range, and for a float, the in-place
  product \<^verbatim>\<open>deltas *= dist_coefs\<close> raises and no trajectory is built), so the parameter
  has the type of an int64. \<^verbatim>\<open>num_turns\<close> is a natural number (\<^verbatim>\<open>np.tile\<close> raises
  on a negative repetition count). The centre is the float array
  \<^verbatim>\<open>get_pose().position[0:2]\<close>, and \<^verbatim>\<open>np.hstack\<close> with \<^verbatim>\<open>np.zeros\<close> makes the
  final coordinates a float64 array whatever the centre was: float64 values are taken as
  real numbers, rounding is outside this embedding.
\<close>

type_synonym int64 = "64 word"
type_synonym point2 = "real \<times> real"
type_synonym point3 = "real \<times> real \<times> real"

datatype py_error = IndexError

subsection \<open>The numpy operations used by the generator\<close>

text \<open>\<^verbatim>\<open>np.tile(a, (n, 1))\<close>: the rows of \<open>a\<close>, \<open>n\<close> times over.\<close>

definition np_tile :: "'a list \<Rightarrow> nat \<Rightarrow> 'a list" where
  "np_tile a n = concat (replicate n a)"

text \<open>\<^verbatim>\<open>np.arange(lo, hi)\<close> on naturals, as int64 values.\<close>

definition np_arange :: "nat \<Rightarrow> nat \<Rightarrow> int64 list" where
  "np_arange lo hi = map of_nat [lo ..< hi]"

text \<open>\<^verbatim>\<open>np.repeat(a, n)\<close>: every element \<open>n\<close> times in a row.\<close>

definition np_repeat :: "'a list \<Rightarrow> nat \<Rightarrow> 'a list" where
  "np_repeat a n = concat (map (replicate n) a)"

text \<open>\<^verbatim>\<open>np.cumsum(a, axis=0)\<close> on rows with two columns: the running sums.\<close>

fun cumsum_from :: "point2 \<Rightarrow> point2 list \<Rightarrow> point2 list" where
  "cumsum_from acc [] = []"
| "cumsum_from acc (r # rs) =
     (fst acc + fst r, snd acc + snd r) # cumsum_from (fst acc + fst r, snd acc + snd r) rs"

fun np_cumsum :: "point2 list \<Rightarrow> point2 list" where
  "np_cumsum [] = []"
| "np_cumsum (r # rs) = r # cumsum_from r rs"

text \<open>An int64 row stacked under a float row becomes a float row.\<close>

definition as_float :: "int64 \<times> int64 \<Rightarrow> point2" where
  "as_float d = (real_of_int (sint (fst d)), real_of_int (sint (snd d)))"

subsection \<open>SearchTrajectory\<close>

record SearchTrajectory =
  coordinates :: "point3 list"
  fid_id :: int
  cur_pt :: int

definition dirs :: "(int64 \<times> int64) list" where
  "dirs = [(0, -1), (-1, 0), (0, 1), (1, 0)]"

text \<open>
  \<^verbatim>\<open>coordinates[cur_pt]\<close>: a negative index counts from the end, an index out of
  range raises IndexError.
\<close>

definition get_cur_pt :: "SearchTrajectory \<Rightarrow> py_error + point3" where
  "get_cur_pt self =
     (let n = int (length (coordinates self));
          j = (if cur_pt self < 0 then n + cur_pt self else cur_pt self)
      in if 0 \<le> j \<and> j < n then Inr (coordinates self ! nat j) else Inl IndexError)"

text \<open>The method mutates \<^verbatim>\<open>cur_pt\<close>; the model returns the flag and the trajectory.\<close>

definition increment_point :: "SearchTrajectory \<Rightarrow> bool \<times> SearchTrajectory" where
  "increment_point self =
     (let self' = self\<lparr>cur_pt := cur_pt self + 1\<rparr>
      in (cur_pt self' \<ge> int (length (coordinates self')), self'))"

definition spiral_traj :: "point2 \<Rightarrow> nat \<Rightarrow> int64 \<Rightarrow> int \<Rightarrow> SearchTrajectory" where
  "spiral_traj center num_turns distance fid =
     (let deltas = np_tile dirs num_turns;
          dist_coefs = map (\<lambda>k. distance * k) (np_repeat (np_arange 1 (num_turns * 2 + 1)) 2);
          deltas = map2 (\<lambda>d c. (fst d * c, snd d * c)) deltas dist_coefs;
          coords = np_cumsum (center # map as_float deltas)
      in \<lparr>coordinates = map (\<lambda>p. (fst p, snd p, 0)) coords, fid_id = fid, cur_pt = 0\<rparr>)"




subsection \<open>SearchState\<close>

text \<open>
  \<^verbatim>\<open>evaluate\<close> talks to four collaborators through \<^verbatim>\<open>self.context\<close>: the course
  (\<^verbatim>\<open>current_waypoint()\<close>), the rover (\<^verbatim>\<open>get_pose()\<close>, \<^verbatim>\<open>send_drive_command\<close>)
  and the environment (\<^verbatim>\<open>current_fid_pos()\<close>). A \<open>Context\<close> holds what they answer
  during one cycle (the same answer each time a collaborator is asked within the cycle);
  the calls made on them are returned in their order. When \<^verbatim>\<open>get_cur_pt\<close> raises, the
  exception leaves \<^verbatim>\<open>evaluate\<close>: the outcome is the error. The function
  \<^verbatim>\<open>get_drive_command\<close> of \<^verbatim>\<open>drive.py\<close> and the constant
  \<^verbatim>\<open>Environment.NO_FIDUCIAL\<close> of \<^verbatim>\<open>context.py\<close> are parameters. The argument
  \<^verbatim>\<open>ud\<close> is not used by the method and is left out.
\<close>

record Waypoint =
  fiducial_id :: int

record Pose =
  position :: point3
  rotation :: "real \<times> real \<times> real \<times> real"

record Context =
  course_current_waypoint :: Waypoint
  rover_get_pose :: Pose
  env_current_fid_pos :: "point3 option"

datatype 'cmd call =
  CallCurrentWaypoint | CallGetPose | CallSendDriveCommand 'cmd | CallCurrentFidPos

record SearchState =
  traj :: "SearchTrajectory option"

record 'cmd cycle =
  outcome :: "py_error + string"
  after :: SearchState
  calls :: "'cmd call list"

definition STOP_THRESH :: real where
  "STOP_THRESH = 0.2"

definition DRIVE_FWD_THRESH :: real where
  "DRIVE_FWD_THRESH = 0.95"

definition rebind :: "Context \<Rightarrow> SearchState \<Rightarrow> bool" where
  "rebind ctx self =
     (case traj self of
        None \<Rightarrow> True
      | Some t \<Rightarrow> fid_id t \<noteq> fiducial_id (course_current_waypoint ctx))"

definition bind_traj :: "Context \<Rightarrow> SearchState \<Rightarrow> SearchTrajectory" where
  "bind_traj ctx self =
     (let waypoint = course_current_waypoint ctx;
          fresh = spiral_traj
            (fst (position (rover_get_pose ctx)), fst (snd (position (rover_get_pose ctx))))
            5 2 (fiducial_id waypoint)
      in case traj self of
           None \<Rightarrow> fresh
         | Some t \<Rightarrow> if fid_id t \<noteq> fiducial_id waypoint then fresh else t)"

definition evaluate ::
  "(point3 \<Rightarrow> Pose \<Rightarrow> real \<Rightarrow> real \<Rightarrow> 'cmd \<times> bool) \<Rightarrow> int \<Rightarrow> Context \<Rightarrow> SearchState
     \<Rightarrow> 'cmd cycle" where
  "evaluate get_drive_command NO_FIDUCIAL ctx self =
     (let calls1 = CallCurrentWaypoint # (if rebind ctx self then [CallGetPose] else []);
          tr = bind_traj ctx self
      in case get_cur_pt tr of
           Inl e \<Rightarrow> \<lparr>outcome = Inl e, after = self\<lparr>traj := Some tr\<rparr>, calls = calls1\<rparr>
         | Inr target_pos \<Rightarrow>
             (let calls2 = calls1 @ [CallGetPose];
                  (cmd_vel, arrived) =
                     get_drive_command target_pos (rover_get_pose ctx) STOP_THRESH DRIVE_FWD_THRESH;
                  (finished, tr') = (if arrived then increment_point tr else (False, tr))
              in if finished
                 then \<lparr>outcome = Inr ''waypoint_traverse'', after = self\<lparr>traj := Some tr'\<rparr>,
                        calls = calls2\<rparr>
                 else
                   (let calls3 = calls2 @ [CallSendDriveCommand cmd_vel, CallCurrentWaypoint];
                        current_waypoint = course_current_waypoint ctx
                    in if fiducial_id current_waypoint \<noteq> NO_FIDUCIAL
                       then (if env_current_fid_pos ctx \<noteq> None
                             then \<lparr>outcome = Inr ''single_fiducial'',
                                    after = self\<lparr>traj := Some tr'\<rparr>,
                                    calls = calls3 @ [CallCurrentFidPos]\<rparr>
                             else \<lparr>outcome = Inr ''search'', after = self\<lparr>traj := Some tr'\<rparr>,
                                    calls = calls3 @ [CallCurrentFidPos]\<rparr>)
                       else \<lparr>outcome = Inr ''search'', after = self\<lparr>traj := Some tr'\<rparr>,
                              calls = calls3\<rparr>)))"

subsection \<open>Example inputs\<close>

text \<open>
  Inputs for the concrete instances below: a context whose waypoint carries fiducial 7,
  with the rover at (1, 2, 3) and a marker in view; a stand-in for
  \<^verbatim>\<open>get_drive_command\<close> that commands the target itself and reports a fixed arrival
  flag; the trajectory \<^verbatim>\<open>evaluate\<close> builds in that context, with its cursor at \<open>i\<close>;
  and the state after \<open>n\<close> cycles in each of which the rover arrives.
\<close>

definition demo_ctx :: Context where
  "demo_ctx = \<lparr>course_current_waypoint = \<lparr>fiducial_id = 7\<rparr>,
               rover_get_pose = \<lparr>position = (1, 2, 3), rotation = (0, 0, 0, 1)\<rparr>,
               env_current_fid_pos = Some (4, 5, 0)\<rparr>"

definition drive_to :: "bool \<Rightarrow> point3 \<Rightarrow> Pose \<Rightarrow> real \<Rightarrow> real \<Rightarrow> point3 \<times> bool" where
  "drive_to arrived target pose stop fwd = (target, arrived)"

definition demo_traj :: "int \<Rightarrow> SearchTrajectory" where
  "demo_traj i = (spiral_traj (1, 2) 5 2 7)\<lparr>cur_pt := i\<rparr>"

fun arrivals :: "nat \<Rightarrow> SearchState \<Rightarrow> SearchState" where
  "arrivals 0 s = s"
| "arrivals (Suc n) s = after (evaluate (drive_to True) (- 1) demo_ctx (arrivals n s))"

section \<open>Properties of the trajectory\<close>

lemma length_cumsum_from: "length (cumsum_from acc rs) = length rs"
  by (induction rs arbitrary: acc) simp_all


lemma length_np_tile_dirs: "length (np_tile dirs n) = 4 * n"
  by (induction n) (simp_all add: np_tile_def dirs_def)

lemma length_np_repeat: "length (np_repeat a 2) = 2 * length a"
  by (induction a) (simp_all add: np_repeat_def)

lemma length_np_arange: "length (np_arange lo hi) = hi - lo"
  by (simp add: np_arange_def)

lemma length_spiral_traj:
  "length (coordinates (spiral_traj center num_turns distance fid)) = 4 * num_turns + 1"
  by (simp add: spiral_traj_def Let_def length_cumsum_from length_np_tile_dirs
      length_np_repeat length_np_arange)

lemma spiral_traj_first:
  "coordinates (spiral_traj center num_turns distance fid) ! 0 = (fst center, snd center, 0)"
  by (simp add: spiral_traj_def Let_def)





























text \<open>
  Claim C8. \<^verbatim>\<open>increment_point\<close> adds exactly 1 to the cursor, so never decreases it,
  leaves the coordinates and the fiducial alone, and returns true exactly when the cursor
  after the increment is at least the number of coordinates.
\<close>

theorem increment_point_spec:
  "cur_pt (snd (increment_point t)) = cur_pt t + 1
   \<and> cur_pt t \<le> cur_pt (snd (increment_point t))
   \<and> coordinates (snd (increment_point t)) = coordinates t
   \<and> fid_id (snd (increment_point t)) = fid_id t
   \<and> fst (increment_point t)
       = (cur_pt (snd (increment_point t)) \<ge> int (length (coordinates (snd (increment_point t)))))"
  by (simp add: increment_point_def Let_def)

section \<open>Properties of the search state\<close>

text \<open>The three ways a cycle can end, as equations.\<close>

lemma evaluate_Inl:
  assumes "get_cur_pt (bind_traj ctx self) = Inl e"
  shows "evaluate drv nf ctx self =
     \<lparr>outcome = Inl e, after = self\<lparr>traj := Some (bind_traj ctx self)\<rparr>,
      calls = CallCurrentWaypoint # (if rebind ctx self then [CallGetPose] else [])\<rparr>"
  using assms by (simp add: evaluate_def Let_def)

lemma evaluate_finished:
  assumes "get_cur_pt (bind_traj ctx self) = Inr p"
    and "snd (drv p (rover_get_pose ctx) STOP_THRESH DRIVE_FWD_THRESH)"
    and "fst (increment_point (bind_traj ctx self))"
  shows "evaluate drv nf ctx self =
     \<lparr>outcome = Inr ''waypoint_traverse'',
      after = self\<lparr>traj := Some (snd (increment_point (bind_traj ctx self)))\<rparr>,
      calls = (CallCurrentWaypoint # (if rebind ctx self then [CallGetPose] else []))
                @ [CallGetPose]\<rparr>"
proof -
  obtain cmd where d: "drv p (rover_get_pose ctx) STOP_THRESH DRIVE_FWD_THRESH = (cmd, True)"
    using assms(2) by (cases "drv p (rover_get_pose ctx) STOP_THRESH DRIVE_FWD_THRESH") auto
  obtain t where i: "increment_point (bind_traj ctx self) = (True, t)"
    using assms(3) by (cases "increment_point (bind_traj ctx self)") auto
  show ?thesis
    by (simp add: evaluate_def Let_def assms(1) d i)
qed

lemma evaluate_continue:
  assumes "get_cur_pt (bind_traj ctx self) = Inr p"
    and "drv p (rover_get_pose ctx) STOP_THRESH DRIVE_FWD_THRESH = (cmd, arrived)"
    and "\<not> (arrived \<and> fst (increment_point (bind_traj ctx self)))"
  shows "evaluate drv nf ctx self =
     \<lparr>outcome =
        Inr (if fiducial_id (course_current_waypoint ctx) \<noteq> nf \<and> env_current_fid_pos ctx \<noteq> None
             then ''single_fiducial'' else ''search''),
      after = self\<lparr>traj := Some (if arrived then snd (increment_point (bind_traj ctx self))
                                   else bind_traj ctx self)\<rparr>,
      calls = (CallCurrentWaypoint # (if rebind ctx self then [CallGetPose] else []))
                @ [CallGetPose, CallSendDriveCommand cmd, CallCurrentWaypoint]
                @ (if fiducial_id (course_current_waypoint ctx) \<noteq> nf then [CallCurrentFidPos]
                   else [])\<rparr>"
  using assms by (auto simp: evaluate_def Let_def split: prod.splits)

text \<open>
  Claim C4. When the drive command reports arrival and advancing the trajectory reports
  exhaustion, \<^verbatim>\<open>evaluate\<close> returns \<^verbatim>\<open>"waypoint_traverse"\<close>. The calls of the cycle are
  the waypoint read, the pose reads and nothing else: no drive command is sent and the
  marker position is not asked for. Context and sentinel are arbitrary, so this holds also
  with a real marker id and a marker in view.
\<close>

theorem evaluate_exhaustion:
  assumes "get_cur_pt (bind_traj ctx self) = Inr p"
    and "snd (drv p (rover_get_pose ctx) STOP_THRESH DRIVE_FWD_THRESH)"
    and "fst (increment_point (bind_traj ctx self))"
  shows "outcome (evaluate drv nf ctx self) = Inr ''waypoint_traverse''
     \<and> calls (evaluate drv nf ctx self)
          = (CallCurrentWaypoint # (if rebind ctx self then [CallGetPose] else [])) @ [CallGetPose]
     \<and> (\<forall>c. CallSendDriveCommand c \<notin> set (calls (evaluate drv nf ctx self)))
     \<and> CallCurrentFidPos \<notin> set (calls (evaluate drv nf ctx self))"
  unfolding evaluate_finished [where drv = drv and p = p, OF assms] by simp

text \<open>
  On the last point of the spiral, arriving, with fiducial 7 in view: the cycle ends in
  \<^verbatim>\<open>"waypoint_traverse"\<close>.
\<close>

theorem evaluate_exhaustion_witness:
  "get_cur_pt (bind_traj demo_ctx \<lparr>traj = Some (demo_traj 20)\<rparr>) = Inr (11, 12, 0)
   \<and> snd (drive_to True (11, 12, 0) (rover_get_pose demo_ctx) STOP_THRESH DRIVE_FWD_THRESH)
   \<and> fst (increment_point (bind_traj demo_ctx \<lparr>traj = Some (demo_traj 20)\<rparr>))
   \<and> fiducial_id (course_current_waypoint demo_ctx) \<noteq> - 1
   \<and> env_current_fid_pos demo_ctx = Some (4, 5, 0)
   \<and> outcome (evaluate (drive_to True) (- 1) demo_ctx \<lparr>traj = Some (demo_traj 20)\<rparr>)
        = Inr ''waypoint_traverse''
   \<and> calls (evaluate (drive_to True) (- 1) demo_ctx \<lparr>traj = Some (demo_traj 20)\<rparr>)
        = [CallCurrentWaypoint, CallGetPose]"
proof -
  have h1: "get_cur_pt (bind_traj demo_ctx \<lparr>traj = Some (demo_traj 20)\<rparr>) = Inr (11, 12, 0)"
    by code_simp
  have h2: "snd (drive_to True (11, 12, 0) (rover_get_pose demo_ctx) STOP_THRESH DRIVE_FWD_THRESH)"
    by (simp add: drive_to_def)
  have h3: "fst (increment_point (bind_traj demo_ctx \<lparr>traj = Some (demo_traj 20)\<rparr>))"
    by code_simp
  have h4: "\<not> rebind demo_ctx \<lparr>traj = Some (demo_traj 20)\<rparr>"
    by code_simp
  have h5: "fiducial_id (course_current_waypoint demo_ctx) \<noteq> - 1
     \<and> env_current_fid_pos demo_ctx = Some (4, 5, 0)"
    by (simp add: demo_ctx_def)
  show ?thesis
    using evaluate_exhaustion [where drv = "drive_to True" and nf = "- 1", OF h1 h2 h3] h1 h2 h3 h4 h5 by simp
qed

text \<open>
  Claim C5. When the current point can be read, the cycle does not exhaust the trajectory (the
  rover has not arrived, or it has and points remain), the waypoint's fiducial is not the
  sentinel and a marker position is reported, \<^verbatim>\<open>evaluate\<close> returns
  \<^verbatim>\<open>"single_fiducial"\<close>, whatever the arrival flag, and the drive command of the cycle
  has been sent before the marker position is asked for.
\<close>

theorem evaluate_handoff:
  assumes "get_cur_pt (bind_traj ctx self) = Inr p"
    and "drv p (rover_get_pose ctx) STOP_THRESH DRIVE_FWD_THRESH = (cmd, arrived)"
    and "\<not> (arrived \<and> fst (increment_point (bind_traj ctx self)))"
    and "fiducial_id (course_current_waypoint ctx) \<noteq> nf"
    and "env_current_fid_pos ctx = Some q"
  shows "outcome (evaluate drv nf ctx self) = Inr ''single_fiducial''
     \<and> calls (evaluate drv nf ctx self)
          = (CallCurrentWaypoint # (if rebind ctx self then [CallGetPose] else []))
            @ [CallGetPose, CallSendDriveCommand cmd, CallCurrentWaypoint, CallCurrentFidPos]"
  unfolding evaluate_continue [where drv = drv and p = p, OF assms(1,2,3)] using assms(4,5) by simp

text \<open>The first cycle of a search, not arrived, with fiducial 7 in view.\<close>

theorem evaluate_handoff_witness:
  "get_cur_pt (bind_traj demo_ctx \<lparr>traj = None\<rparr>) = Inr (1, 2, 0)
   \<and> drive_to False (1, 2, 0) (rover_get_pose demo_ctx) STOP_THRESH DRIVE_FWD_THRESH
        = ((1, 2, 0), False)
   \<and> \<not> (False \<and> fst (increment_point (bind_traj demo_ctx \<lparr>traj = None\<rparr>)))
   \<and> fiducial_id (course_current_waypoint demo_ctx) \<noteq> - 1
   \<and> env_current_fid_pos demo_ctx = Some (4, 5, 0)
   \<and> outcome (evaluate (drive_to False) (- 1) demo_ctx \<lparr>traj = None\<rparr>) = Inr ''single_fiducial''
   \<and> calls (evaluate (drive_to False) (- 1) demo_ctx \<lparr>traj = None\<rparr>)
        = [CallCurrentWaypoint, CallGetPose, CallGetPose, CallSendDriveCommand (1, 2, 0),
           CallCurrentWaypoint, CallCurrentFidPos]"
proof -
  have h1: "get_cur_pt (bind_traj demo_ctx \<lparr>traj = None\<rparr>) = Inr (1, 2, 0)"
    by code_simp
  have h2: "drive_to False (1, 2, 0) (rover_get_pose demo_ctx) STOP_THRESH DRIVE_FWD_THRESH
        = ((1, 2, 0), False)"
    by (simp add: drive_to_def)
  have h3: "\<not> (False \<and> fst (increment_point (bind_traj demo_ctx \<lparr>traj = None\<rparr>)))"
    by simp
  have h4: "fiducial_id (course_current_waypoint demo_ctx) \<noteq> - 1"
    by (simp add: demo_ctx_def)
  have h5: "env_current_fid_pos demo_ctx = Some (4, 5, 0)"
    by (simp add: demo_ctx_def)
  have h6: "rebind demo_ctx \<lparr>traj = None\<rparr>"
    by (simp add: rebind_def)
  show ?thesis
    using evaluate_handoff [where drv = "drive_to False", OF h1 h2 h3 h4 h5] h1 h2 h4 h5 h6 by simp
qed

lemma bind_traj_env [simp]:
  "bind_traj (ctx\<lparr>env_current_fid_pos := v\<rparr>) self = bind_traj ctx self"
  by (simp add: bind_traj_def Let_def split: option.splits)

lemma rebind_env [simp]:
  "rebind (ctx\<lparr>env_current_fid_pos := v\<rparr>) self = rebind ctx self"
  by (simp add: rebind_def split: option.splits)

lemma evaluate_sentinel:
  assumes "fiducial_id (course_current_waypoint ctx) = nf"
  shows "evaluate drv nf (ctx\<lparr>env_current_fid_pos := v\<rparr>) self
       = evaluate drv nf (ctx\<lparr>env_current_fid_pos := None\<rparr>) self
     \<and> outcome (evaluate drv nf (ctx\<lparr>env_current_fid_pos := v\<rparr>) self) \<noteq> Inr ''single_fiducial''"
proof (cases "get_cur_pt (bind_traj ctx self)")
  case (Inl e)
  then show ?thesis by (simp add: evaluate_Inl)
next
  case (Inr p)
  obtain cmd arrived
    where d: "drv p (rover_get_pose ctx) STOP_THRESH DRIVE_FWD_THRESH = (cmd, arrived)"
    by (cases "drv p (rover_get_pose ctx) STOP_THRESH DRIVE_FWD_THRESH")
  show ?thesis
  proof (cases "arrived \<and> fst (increment_point (bind_traj ctx self))")
    case True
    then have a: "snd (drv p (rover_get_pose ctx) STOP_THRESH DRIVE_FWD_THRESH)"
      and f: "fst (increment_point (bind_traj ctx self))" using d by simp_all
    show ?thesis
      using Inr a f
      by (simp add: evaluate_finished [where drv = drv and p = p])
  next
    case False
    show ?thesis
      using Inr d False assms
      by (simp add: evaluate_continue [where drv = drv and p = p and cmd = cmd and arrived = arrived])
  qed
qed

text \<open>
  Claim C6. When the waypoint's fiducial is the sentinel, \<^verbatim>\<open>evaluate\<close> never returns
  \<^verbatim>\<open>"single_fiducial"\<close>, and two cycles that differ only in what the environment reports
  as marker position end alike: same outcome, same state, same calls.
\<close>

theorem evaluate_no_fiducial:
  assumes "fiducial_id (course_current_waypoint ctx) = nf"
  shows "outcome (evaluate drv nf ctx self) \<noteq> Inr ''single_fiducial''
     \<and> evaluate drv nf (ctx\<lparr>env_current_fid_pos := v\<rparr>) self
       = evaluate drv nf (ctx\<lparr>env_current_fid_pos := v'\<rparr>) self"
proof -
  have "outcome (evaluate drv nf (ctx\<lparr>env_current_fid_pos := env_current_fid_pos ctx\<rparr>) self)
      \<noteq> Inr ''single_fiducial''"
    using evaluate_sentinel [OF assms] by blast
  then have "outcome (evaluate drv nf ctx self) \<noteq> Inr ''single_fiducial''"
    by simp
  moreover have "evaluate drv nf (ctx\<lparr>env_current_fid_pos := v\<rparr>) self
       = evaluate drv nf (ctx\<lparr>env_current_fid_pos := v'\<rparr>) self"
    using evaluate_sentinel [OF assms, of drv v self] evaluate_sentinel [OF assms, of drv v' self]
    by simp
  ultimately show ?thesis by simp
qed

text \<open>A waypoint without fiducial, with and without a marker in view.\<close>

theorem evaluate_no_fiducial_witness:
  "fiducial_id (course_current_waypoint (demo_ctx\<lparr>course_current_waypoint := \<lparr>fiducial_id = - 1\<rparr>\<rparr>))
      = - 1
   \<and> outcome (evaluate (drive_to False) (- 1)
        (demo_ctx\<lparr>course_current_waypoint := \<lparr>fiducial_id = - 1\<rparr>\<rparr>) \<lparr>traj = None\<rparr>)
      \<noteq> Inr ''single_fiducial''
   \<and> evaluate (drive_to False) (- 1)
        (demo_ctx\<lparr>course_current_waypoint := \<lparr>fiducial_id = - 1\<rparr>,
                   env_current_fid_pos := Some (4, 5, 0)\<rparr>) \<lparr>traj = None\<rparr>
     = evaluate (drive_to False) (- 1)
        (demo_ctx\<lparr>course_current_waypoint := \<lparr>fiducial_id = - 1\<rparr>,
                   env_current_fid_pos := None\<rparr>) \<lparr>traj = None\<rparr>"
proof -
  have h: "fiducial_id (course_current_waypoint
      (demo_ctx\<lparr>course_current_waypoint := \<lparr>fiducial_id = - 1\<rparr>\<rparr>)) = - 1"
    by simp
  show ?thesis
    using evaluate_no_fiducial [OF h, of "drive_to False" "\<lparr>traj = None\<rparr>" "Some (4, 5, 0)" None] h
    by simp
qed

lemma get_cur_pt_fresh:
  "get_cur_pt (spiral_traj c n S f) = Inr (fst c, snd c, 0)"
proof -
  have "cur_pt (spiral_traj c n S f) = 0" by (simp add: spiral_traj_def Let_def)
  then show ?thesis
    by (simp add: get_cur_pt_def Let_def length_spiral_traj spiral_traj_first)
qed

lemma increment_point_fresh:
  "\<not> fst (increment_point (spiral_traj c 5 S f))"
proof -
  have "cur_pt (spiral_traj c 5 S f) = 0" by (simp add: spiral_traj_def Let_def)
  then show ?thesis
    by (simp add: increment_point_def Let_def length_spiral_traj)
qed

lemma fid_id_spiral_traj [simp]: "fid_id (spiral_traj c n S f) = f"
  by (simp add: spiral_traj_def Let_def)

lemma cur_pt_spiral_traj [simp]: "cur_pt (spiral_traj c n S f) = 0"
  by (simp add: spiral_traj_def Let_def)

lemma increment_point_snd:
  "snd (increment_point t) = t\<lparr>cur_pt := cur_pt t + 1\<rparr>"
  by (simp add: increment_point_def Let_def)

text \<open>
  Claim C7. After a cycle the state holds a trajectory \<open>t'\<close>. If no trajectory was active
  or the active one's fiducial differs from the waypoint's, \<open>t'\<close> is the spiral newly
  generated around the rover's planar position with 5 turns, step 2 and the waypoint's
  fiducial; it is generated with cursor 0, and the cursor is 1 after the cycle if the rover
  has already arrived at the centre. Otherwise \<open>t'\<close> has the coordinates and the fiducial
  of the active trajectory, and its cursor is the old one or the old one plus 1.
\<close>

theorem evaluate_rebinding:
  fixes drv :: "point3 \<Rightarrow> Pose \<Rightarrow> real \<Rightarrow> real \<Rightarrow> 'cmd \<times> bool"
  shows "\<exists>t'. traj (after (evaluate drv nf ctx self)) = Some t'
     \<and> (if traj self = None
            \<or> (\<exists>t. traj self = Some t \<and> fid_id t \<noteq> fiducial_id (course_current_waypoint ctx))
         then (let fresh = spiral_traj
                     (fst (position (rover_get_pose ctx)), fst (snd (position (rover_get_pose ctx))))
                     5 2 (fiducial_id (course_current_waypoint ctx));
                   arrived = snd (drv (fst (position (rover_get_pose ctx)),
                                       fst (snd (position (rover_get_pose ctx))), 0)
                                      (rover_get_pose ctx) STOP_THRESH DRIVE_FWD_THRESH)
               in cur_pt fresh = 0
                  \<and> t' = fresh\<lparr>cur_pt := (if arrived then 1 else 0)\<rparr>)
         else (\<exists>t. traj self = Some t \<and> coordinates t' = coordinates t \<and> fid_id t' = fid_id t
                 \<and> (cur_pt t' = cur_pt t \<or> cur_pt t' = cur_pt t + 1)))"
proof (cases "rebind ctx self")
  case True
  let ?c = "(fst (position (rover_get_pose ctx)), fst (snd (position (rover_get_pose ctx))))"
  let ?fresh = "spiral_traj ?c 5 2 (fiducial_id (course_current_waypoint ctx))"
  from True have c: "traj self = None
      \<or> (\<exists>t. traj self = Some t \<and> fid_id t \<noteq> fiducial_id (course_current_waypoint ctx))"
    by (auto simp: rebind_def split: option.splits)
  from True have b: "bind_traj ctx self = ?fresh"
    by (auto simp: rebind_def bind_traj_def Let_def split: option.splits)
  have g: "get_cur_pt (bind_traj ctx self) = Inr (fst ?c, snd ?c, 0)"
    unfolding b by (rule get_cur_pt_fresh)
  obtain cmd arrived
    where d: "drv (fst ?c, snd ?c, 0) (rover_get_pose ctx) STOP_THRESH DRIVE_FWD_THRESH
                = (cmd, arrived)"
    by (cases "drv (fst ?c, snd ?c, 0) (rover_get_pose ctx) STOP_THRESH DRIVE_FWD_THRESH")
  have n: "\<not> (arrived \<and> fst (increment_point (bind_traj ctx self)))"
    unfolding b using increment_point_fresh by simp
  have "traj (after (evaluate drv nf ctx self))
        = Some (if arrived then snd (increment_point ?fresh) else ?fresh)"
    using evaluate_continue [where drv = drv, OF g d n] b by simp
  then have "traj (after (evaluate drv nf ctx self))
        = Some (?fresh\<lparr>cur_pt := (if arrived then 1 else 0)\<rparr>)"
    by (simp add: increment_point_snd)
  then show ?thesis using c d by (simp add: Let_def)
next
  case False
  then obtain t where t: "traj self = Some t"
    and f: "fid_id t = fiducial_id (course_current_waypoint ctx)"
    by (auto simp: rebind_def split: option.splits)
  have c: "\<not> (traj self = None
      \<or> (\<exists>t. traj self = Some t \<and> fid_id t \<noteq> fiducial_id (course_current_waypoint ctx)))"
    using t f by simp
  have b: "bind_traj ctx self = t"
    using t f by (simp add: bind_traj_def Let_def)
  have "\<exists>t'. traj (after (evaluate drv nf ctx self)) = Some t'
      \<and> coordinates t' = coordinates t \<and> fid_id t' = fid_id t
      \<and> (cur_pt t' = cur_pt t \<or> cur_pt t' = cur_pt t + 1)"
  proof (cases "get_cur_pt t")
    case (Inl e)
    then show ?thesis using b by (simp add: evaluate_Inl)
  next
    case (Inr p)
    obtain cmd arrived
      where d: "drv p (rover_get_pose ctx) STOP_THRESH DRIVE_FWD_THRESH = (cmd, arrived)"
      by (cases "drv p (rover_get_pose ctx) STOP_THRESH DRIVE_FWD_THRESH")
    show ?thesis
    proof (cases "arrived \<and> fst (increment_point t)")
      case True
      then have "traj (after (evaluate drv nf ctx self)) = Some (snd (increment_point t))"
        using evaluate_finished [where drv = drv and p = p and ctx = ctx and self = self and nf = nf]
          Inr d b by simp
      then show ?thesis by (simp add: increment_point_snd)
    next
      case False
      then have "traj (after (evaluate drv nf ctx self))
          = Some (if arrived then snd (increment_point t) else t)"
        using evaluate_continue [where drv = drv and p = p and ctx = ctx and self = self and nf = nf
            and cmd = cmd and arrived = arrived] Inr d b by simp
      then show ?thesis by (simp add: increment_point_snd)
    qed
  qed
  then show ?thesis using c t by auto
qed

text \<open>
  A trajectory for fiducial 3 with its cursor at 9, and a waypoint for fiducial 7: the
  progress is dropped, the new spiral is centred at the rover's position (1, 2).
\<close>

theorem evaluate_rebinding_witness:
  "traj (after (evaluate (drive_to False) (- 1) demo_ctx
          \<lparr>traj = Some ((spiral_traj (0, 0) 5 2 3)\<lparr>cur_pt := 9\<rparr>)\<rparr>))
     = Some (spiral_traj (1, 2) 5 2 7)
   \<and> cur_pt (spiral_traj (1, 2) 5 2 7) = 0"
proof -
  let ?self = "\<lparr>traj = Some ((spiral_traj (0, 0) 5 2 3)\<lparr>cur_pt := 9\<rparr>)\<rparr>"
  have c: "traj ?self = None
      \<or> (\<exists>t. traj ?self = Some t \<and> fid_id t \<noteq> fiducial_id (course_current_waypoint demo_ctx))"
    by (simp add: demo_ctx_def)
  have p: "position (rover_get_pose demo_ctx) = (1, 2, 3)"
    and w: "fiducial_id (course_current_waypoint demo_ctx) = 7"
    by (simp_all add: demo_ctx_def)
  obtain t' where "traj (after (evaluate (drive_to False) (- 1) demo_ctx ?self)) = Some t'"
    and "t' = (spiral_traj (1, 2) 5 2 7)\<lparr>cur_pt := 0\<rparr>"
    using evaluate_rebinding [of "drive_to False" "- 1" demo_ctx ?self] c
    unfolding p w by (auto simp: Let_def drive_to_def)
  then show ?thesis by simp
qed

text \<open>
  Claim C9, amended. On an exhausted trajectory (cursor equal to the number of coordinates)
  \<^verbatim>\<open>get_cur_pt\<close> raises IndexError, but \<^verbatim>\<open>increment_point\<close> does not fail: it returns
  true and moves the cursor one past the number of coordinates. On a trajectory that is
  not exhausted (cursor from 0 up to the last index) \<^verbatim>\<open>get_cur_pt\<close> returns the point under
  the cursor and \<^verbatim>\<open>increment_point\<close> keeps the cursor between 0 and the number of
  coordinates.
\<close>

theorem exhausted_trajectory:
  "(cur_pt t = int (length (coordinates t)) \<longrightarrow>
      get_cur_pt t = Inl IndexError
      \<and> increment_point t = (True, t\<lparr>cur_pt := int (length (coordinates t)) + 1\<rparr>))
   \<and> (0 \<le> cur_pt t \<and> cur_pt t < int (length (coordinates t)) \<longrightarrow>
      get_cur_pt t = Inr (coordinates t ! nat (cur_pt t))
      \<and> 0 \<le> cur_pt (snd (increment_point t))
      \<and> cur_pt (snd (increment_point t)) \<le> int (length (coordinates (snd (increment_point t)))))"
  by (simp add: get_cur_pt_def increment_point_def Let_def)

text \<open>The spiral of \<^verbatim>\<open>evaluate\<close> with its cursor at 21 (exhausted) and at 20 (last point).\<close>

theorem exhausted_trajectory_witness:
  "cur_pt (demo_traj 21) = int (length (coordinates (demo_traj 21)))
   \<and> get_cur_pt (demo_traj 21) = Inl IndexError
   \<and> increment_point (demo_traj 21) = (True, demo_traj 22)
   \<and> 0 \<le> cur_pt (demo_traj 20) \<and> cur_pt (demo_traj 20) < int (length (coordinates (demo_traj 20)))
   \<and> get_cur_pt (demo_traj 20) = Inr (11, 12, 0)
   \<and> cur_pt (snd (increment_point (demo_traj 20))) = 21"
proof -
  have l: "length (coordinates (demo_traj i)) = 21" for i
    by (simp add: demo_traj_def length_spiral_traj)
  have c: "cur_pt (demo_traj i) = i" for i
    by (simp add: demo_traj_def)
  have u: "(demo_traj 21)\<lparr>cur_pt := 22\<rparr> = demo_traj 22"
    by (simp add: demo_traj_def)
  have g: "get_cur_pt (demo_traj 20) = Inr (11, 12, 0)"
    by code_simp
  have i: "cur_pt (snd (increment_point (demo_traj 20))) = 21"
    by (simp add: increment_point_def Let_def c)
  show ?thesis
    using exhausted_trajectory [of "demo_traj 21"] exhausted_trajectory [of "demo_traj 20"] g i
    by (simp add: l c u)
qed

text \<open>
  Claim C9 as stated fails: on the exhausted spiral \<^verbatim>\<open>increment_point\<close> returns normally
  and leaves the cursor at 22, above the 21 coordinates.
\<close>

theorem increment_point_exhausted_counterexample:
  "cur_pt (demo_traj 21) = int (length (coordinates (demo_traj 21)))
   \<and> increment_point (demo_traj 21) = (True, demo_traj 22)
   \<and> \<not> cur_pt (snd (increment_point (demo_traj 21)))
         \<le> int (length (coordinates (snd (increment_point (demo_traj 21)))))"
  by (simp add: demo_traj_def increment_point_def Let_def length_spiral_traj)

lemma fid_id_bind_traj:
  "fid_id (bind_traj ctx self) = fiducial_id (course_current_waypoint ctx)"
  by (simp add: bind_traj_def Let_def split: option.splits)

lemma exhausted_after_last:
  assumes "get_cur_pt b = Inr p" and "fst (increment_point b)"
  shows "cur_pt (snd (increment_point b)) = int (length (coordinates b))"
  using assms by (auto simp: get_cur_pt_def increment_point_def Let_def split: if_splits)

lemma waypoint_traverse_only_by_exhaustion:
  assumes "outcome (evaluate drv nf ctx self) = Inr ''waypoint_traverse''"
  shows "\<exists>p. get_cur_pt (bind_traj ctx self) = Inr p
     \<and> snd (drv p (rover_get_pose ctx) STOP_THRESH DRIVE_FWD_THRESH)
     \<and> fst (increment_point (bind_traj ctx self))"
proof (cases "get_cur_pt (bind_traj ctx self)")
  case (Inl e)
  then show ?thesis using assms by (simp add: evaluate_Inl)
next
  case (Inr p)
  obtain cmd arrived
    where d: "drv p (rover_get_pose ctx) STOP_THRESH DRIVE_FWD_THRESH = (cmd, arrived)"
    by (cases "drv p (rover_get_pose ctx) STOP_THRESH DRIVE_FWD_THRESH")
  show ?thesis
  proof (cases "arrived \<and> fst (increment_point (bind_traj ctx self))")
    case True
    then show ?thesis using Inr d by simp
  next
    case False
    have "outcome (evaluate drv nf ctx self)
        = Inr (if fiducial_id (course_current_waypoint ctx) \<noteq> nf \<and> env_current_fid_pos ctx \<noteq> None
               then ''single_fiducial'' else ''search'')"
      using evaluate_continue [where drv = drv and p = p, OF Inr d False] by simp
    then show ?thesis using assms by (simp split: if_splits)
  qed
qed

text \<open>
  Claim C10. After a cycle that returned \<^verbatim>\<open>"waypoint_traverse"\<close> the state still holds
  the trajectory, with its cursor equal to the number of coordinates. In a next cycle with
  the same fiducial on the waypoint the trajectory is not rebuilt, and the read of the
  current point raises IndexError: the cycle ends with that error after the waypoint read
  alone, whatever the other collaborators answer.
\<close>

theorem evaluate_after_exhaustion:
  fixes drv :: "point3 \<Rightarrow> Pose \<Rightarrow> real \<Rightarrow> real \<Rightarrow> 'cmd \<times> bool"
    and drv' :: "point3 \<Rightarrow> Pose \<Rightarrow> real \<Rightarrow> real \<Rightarrow> 'cmd \<times> bool"
  assumes "outcome (evaluate drv nf ctx self) = Inr ''waypoint_traverse''"
    and "fiducial_id (course_current_waypoint ctx') = fiducial_id (course_current_waypoint ctx)"
  shows "\<exists>t. traj (after (evaluate drv nf ctx self)) = Some t
     \<and> cur_pt t = int (length (coordinates t))
     \<and> \<not> rebind ctx' (after (evaluate drv nf ctx self))
     \<and> get_cur_pt t = Inl IndexError
     \<and> evaluate drv' nf' ctx' (after (evaluate drv nf ctx self))
         = \<lparr>outcome = Inl IndexError, after = after (evaluate drv nf ctx self),
            calls = [CallCurrentWaypoint]\<rparr>"
proof -
  let ?b = "bind_traj ctx self"
  let ?t = "snd (increment_point ?b)"
  let ?s = "after (evaluate drv nf ctx self)"
  obtain p where g: "get_cur_pt ?b = Inr p"
    and a: "snd (drv p (rover_get_pose ctx) STOP_THRESH DRIVE_FWD_THRESH)"
    and f: "fst (increment_point ?b)"
    using waypoint_traverse_only_by_exhaustion [OF assms(1)] by blast
  have s: "?s = self\<lparr>traj := Some ?t\<rparr>"
    using evaluate_finished [where drv = drv and p = p, OF g a f] by simp
  have tr: "traj ?s = Some ?t" unfolding s by simp
  have c: "cur_pt ?t = int (length (coordinates ?t))"
    using exhausted_after_last [OF g f] by (simp add: increment_point_snd)
  have i: "fid_id ?t = fiducial_id (course_current_waypoint ctx')"
    using fid_id_bind_traj [of ctx self] assms(2) by (simp add: increment_point_snd)
  have r: "\<not> rebind ctx' ?s"
    using tr i by (simp add: rebind_def)
  have b: "bind_traj ctx' ?s = ?t"
    using tr i by (simp add: bind_traj_def Let_def)
  have e: "get_cur_pt ?t = Inl IndexError"
    using c by (simp add: get_cur_pt_def Let_def)
  have "evaluate drv' nf' ctx' ?s
      = \<lparr>outcome = Inl IndexError, after = ?s\<lparr>traj := Some ?t\<rparr>, calls = [CallCurrentWaypoint]\<rparr>"
    using evaluate_Inl [of ctx' ?s IndexError drv' nf'] b e r by simp
  moreover have "?s\<lparr>traj := Some ?t\<rparr> = ?s" unfolding s by simp
  ultimately have "evaluate drv' nf' ctx' ?s
      = \<lparr>outcome = Inl IndexError, after = ?s, calls = [CallCurrentWaypoint]\<rparr>"
    by simp
  then show ?thesis using tr c r e by blast
qed

text \<open>
  From the initial state: twenty arrivals bring the cursor to the last point of the spiral.
\<close>

lemma arrival_first:
  "after (evaluate (drive_to True) (- 1) demo_ctx \<lparr>traj = None\<rparr>) = \<lparr>traj = Some (demo_traj 1)\<rparr>"
proof -
  have b: "bind_traj demo_ctx \<lparr>traj = None\<rparr> = spiral_traj (1, 2) 5 2 7"
    by (simp add: bind_traj_def Let_def demo_ctx_def)
  have g: "get_cur_pt (bind_traj demo_ctx \<lparr>traj = None\<rparr>) = Inr (1, 2, 0)"
    unfolding b by (simp add: get_cur_pt_fresh)
  have d: "drive_to True (1, 2, 0) (rover_get_pose demo_ctx) STOP_THRESH DRIVE_FWD_THRESH
      = ((1, 2, 0), True)"
    by (simp add: drive_to_def)
  have n: "\<not> (True \<and> fst (increment_point (bind_traj demo_ctx \<lparr>traj = None\<rparr>)))"
    unfolding b using increment_point_fresh by simp
  have u: "snd (increment_point (spiral_traj (1, 2) 5 2 7)) = demo_traj 1"
    by (simp add: increment_point_snd demo_traj_def)
  have "after (evaluate (drive_to True) (- 1) demo_ctx \<lparr>traj = None\<rparr>)
      = \<lparr>traj = Some (snd (increment_point (bind_traj demo_ctx \<lparr>traj = None\<rparr>)))\<rparr>"
    using evaluate_continue [where drv = "drive_to True" and nf = "- 1", OF g d n] by simp
  then show ?thesis unfolding b u .
qed

lemma arrival_step:
  assumes "0 \<le> i" and "i < 20"
  shows "after (evaluate (drive_to True) (- 1) demo_ctx \<lparr>traj = Some (demo_traj i)\<rparr>)
     = \<lparr>traj = Some (demo_traj (i + 1))\<rparr>"
proof -
  let ?self = "\<lparr>traj = Some (demo_traj i)\<rparr>"
  have b: "bind_traj demo_ctx ?self = demo_traj i"
    by (simp add: bind_traj_def Let_def demo_traj_def demo_ctx_def)
  have l: "length (coordinates (demo_traj i)) = 21"
    by (simp add: demo_traj_def length_spiral_traj)
  have c: "cur_pt (demo_traj i) = i" by (simp add: demo_traj_def)
  have g: "get_cur_pt (bind_traj demo_ctx ?self) = Inr (coordinates (demo_traj i) ! nat i)"
    unfolding b using assms by (simp add: get_cur_pt_def Let_def l c)
  have d: "drive_to True (coordinates (demo_traj i) ! nat i) (rover_get_pose demo_ctx)
        STOP_THRESH DRIVE_FWD_THRESH = (coordinates (demo_traj i) ! nat i, True)"
    by (simp add: drive_to_def)
  have n: "\<not> (True \<and> fst (increment_point (bind_traj demo_ctx ?self)))"
    unfolding b using assms by (simp add: increment_point_def Let_def l c)
  have u: "snd (increment_point (demo_traj i)) = demo_traj (i + 1)"
    by (simp add: increment_point_snd demo_traj_def)
  have "after (evaluate (drive_to True) (- 1) demo_ctx ?self)
      = \<lparr>traj = Some (snd (increment_point (bind_traj demo_ctx ?self)))\<rparr>"
    using evaluate_continue [where drv = "drive_to True" and nf = "- 1", OF g d n] by simp
  then show ?thesis unfolding b u .
qed

lemma arrivals_reach:
  "n < 20 \<Longrightarrow> arrivals (Suc n) \<lparr>traj = None\<rparr> = \<lparr>traj = Some (demo_traj (1 + int n))\<rparr>"
proof (induction n)
  case 0
  then show ?case by (simp add: arrival_first)
next
  case (Suc n)
  then have ih: "arrivals (Suc n) \<lparr>traj = None\<rparr> = \<lparr>traj = Some (demo_traj (1 + int n))\<rparr>"
    by simp
  have "after (evaluate (drive_to True) (- 1) demo_ctx \<lparr>traj = Some (demo_traj (1 + int n))\<rparr>)
      = \<lparr>traj = Some (demo_traj (1 + int n + 1))\<rparr>"
    using Suc.prems by (intro arrival_step) simp_all
  moreover have "1 + int n + 1 = 1 + int (Suc n)" by simp
  ultimately have "after (evaluate (drive_to True) (- 1) demo_ctx \<lparr>traj = Some (demo_traj (1 + int n))\<rparr>)
      = \<lparr>traj = Some (demo_traj (1 + int (Suc n)))\<rparr>"
    by (simp only:)
  then show ?case
    unfolding arrivals.simps(2) [of "Suc n"] ih .
qed

lemma arrivals_20: "arrivals 20 \<lparr>traj = None\<rparr> = \<lparr>traj = Some (demo_traj 20)\<rparr>"
proof -
  have "arrivals (Suc 19) \<lparr>traj = None\<rparr> = \<lparr>traj = Some (demo_traj (1 + int 19))\<rparr>"
    by (rule arrivals_reach) simp
  moreover have "Suc 19 = 20" by simp
  moreover have "1 + int 19 = 20" by simp
  ultimately show ?thesis by (simp only:)
qed

text \<open>
  Twenty arrivals from the initial state, the twenty-first arrival ends the search, and the
  twenty-second cycle raises IndexError.
\<close>

theorem evaluate_after_exhaustion_witness:
  "outcome (evaluate (drive_to True) (- 1) demo_ctx (arrivals 20 \<lparr>traj = None\<rparr>))
      = Inr ''waypoint_traverse''
   \<and> fiducial_id (course_current_waypoint (demo_ctx\<lparr>env_current_fid_pos := None\<rparr>))
      = fiducial_id (course_current_waypoint demo_ctx)
   \<and> traj (after (evaluate (drive_to True) (- 1) demo_ctx (arrivals 20 \<lparr>traj = None\<rparr>)))
      = Some (demo_traj 21)
   \<and> outcome (evaluate (drive_to False) (- 1) (demo_ctx\<lparr>env_current_fid_pos := None\<rparr>)
        (after (evaluate (drive_to True) (- 1) demo_ctx (arrivals 20 \<lparr>traj = None\<rparr>))))
      = Inl IndexError"
proof -
  let ?self = "\<lparr>traj = Some (demo_traj 20)\<rparr>"
  have h1: "get_cur_pt (bind_traj demo_ctx ?self) = Inr (11, 12, 0)"
    by code_simp
  have h2: "snd (drive_to True (11, 12, 0) (rover_get_pose demo_ctx) STOP_THRESH DRIVE_FWD_THRESH)"
    by (simp add: drive_to_def)
  have h3: "fst (increment_point (bind_traj demo_ctx ?self))"
    by code_simp
  have b: "bind_traj demo_ctx ?self = demo_traj 20"
    by (simp add: bind_traj_def Let_def demo_traj_def demo_ctx_def)
  have n: "snd (increment_point (demo_traj 20)) = demo_traj 21"
    by (simp add: increment_point_snd demo_traj_def)
  have e: "evaluate (drive_to True) (- 1) demo_ctx ?self =
     \<lparr>outcome = Inr ''waypoint_traverse'', after = \<lparr>traj = Some (demo_traj 21)\<rparr>,
      calls = (CallCurrentWaypoint # (if rebind demo_ctx ?self then [CallGetPose] else []))
                @ [CallGetPose]\<rparr>"
    using evaluate_finished [where drv = "drive_to True" and nf = "- 1", OF h1 h2 h3] b n
    by simp
  have o: "outcome (evaluate (drive_to True) (- 1) demo_ctx ?self) = Inr ''waypoint_traverse''"
    unfolding e by simp
  have w: "fiducial_id (course_current_waypoint (demo_ctx\<lparr>env_current_fid_pos := None\<rparr>))
      = fiducial_id (course_current_waypoint demo_ctx)"
    by simp
  show ?thesis
    unfolding arrivals_20
    using evaluate_after_exhaustion [OF o w, of "drive_to False" "- 1"] o w
    unfolding e by simp
qed

end
